theory Spec2Isabelle
  imports Main
begin

section \<open>Values and exceptions\<close>

text \<open>
  The values that \<^verbatim>\<open>.json()\<close> hands to the library.  JSON \<^verbatim>\<open>null\<close> is decoded to
  Python's \<^verbatim>\<open>None\<close>, so \<open>JNull\<close> stands for both.  Numbers are the integers;
  fractional numbers are not part of the model.
\<close>

datatype json =
    JNull
  | JBool bool
  | JInt int
  | JStr string
  | JArr "json list"
  | JObj "(string \<times> json) list"

text \<open>Python truthiness, as used by \<^verbatim>\<open>a or b\<close> and \<^verbatim>\<open>not a\<close>.\<close>

fun truthy :: "json \<Rightarrow> bool" where
  "truthy JNull = False"
| "truthy (JBool b) = b"
| "truthy (JInt i) = (i \<noteq> 0)"
| "truthy (JStr s) = (s \<noteq> [])"
| "truthy (JArr xs) = (xs \<noteq> [])"
| "truthy (JObj kvs) = (kvs \<noteq> [])"

definition py_or :: "json \<Rightarrow> json \<Rightarrow> json" where
  "py_or a b = (if truthy a then a else b)"

text \<open>The body of a decoded response: a dictionary with string keys.\<close>

type_synonym response = "string \<rightharpoonup> json"

definition py_get :: "response \<Rightarrow> string \<Rightarrow> json" where
  "py_get r k = (case r k of None \<Rightarrow> JNull | Some v \<Rightarrow> v)"

text \<open>
  The argument an exception is built from: either a value as it is, or an f-string, kept
  as its literal text followed by the interpolated value.
\<close>

datatype payload = Raw json | Formatted string json

text \<open>
  Modelled from the spec: \<^verbatim>\<open>ServerError\<close> is declared in \<^verbatim>\<open>loctocat/exceptions.py\<close>,
  which is not among the sources; it is the fatal authorization-server error and is
  represented by a constructor applied to the argument the source passes to it.  The other
  constructors are Python's built-in exceptions, \<open>TransportError\<close> is whatever the HTTP
  call raises, and \<open>ActionError\<close> whatever a caller's handler action raises.
\<close>

datatype exn =
    KeyError string
  | AttributeError string
  | TypeError string
  | ValueError string
  | ServerError payload
  | TransportError string
  | ActionError string

text \<open>
  How a call ends.  \<open>Waiting\<close> is the value of a poll loop that has used every scripted
  reply and is about to send another request.
\<close>

datatype 'a outcome = Returned 'a | Raised exn | Waiting

text \<open>What one HTTP POST followed by \<^verbatim>\<open>.json()\<close> yields: an exception or a dictionary.\<close>

type_synonym reply = "exn + response"

section \<open>Data model\<close>

record LoctocatAuthInfo =
  device_code :: json
  user_code :: json
  verification_uri :: json
  expires_in :: json
  interval :: json

text \<open>
  The \<^verbatim>\<open>DeviceClient\<close> of oauthlib is an external collaborator.  It is built once, in the
  constructor, and \<^verbatim>\<open>prepare_request_uri\<close> is recorded as the endpoint, the client that
  prepared the request and the keyword arguments of the call.
\<close>

record DeviceClient =
  dc_client_id :: string
  dc_scope :: "string list option"
  dc_extras :: "(string \<times> json) list"

record request =
  endpoint :: string
  client :: DeviceClient
  kwargs :: "(string \<times> json) list"

definition prepare_request_uri :: "DeviceClient \<Rightarrow> string \<Rightarrow> (string \<times> json) list \<Rightarrow> request" where
  "prepare_request_uri d url kw = \<lparr>endpoint = url, client = d, kwargs = kw\<rparr>"

text \<open>
  The Authenticator as a handler action sees it (the parameter \<^verbatim>\<open>ctx\<close> of the default
  handlers): its data attributes.  \<open>slept\<close> is not an attribute; it logs the arguments of
  the calls of \<^verbatim>\<open>time.sleep\<close>.
\<close>

record ctx =
  client_id :: string
  auth_url :: string
  token_url :: string
  scopes :: "string list option"
  poll_interval :: int
  auth_info :: "LoctocatAuthInfo option"
  dc :: DeviceClient
  slept :: "int list"

text \<open>
  An action is called with the Authenticator, may change its attributes and may raise;
  attributes changed before a raise stay changed.
\<close>

record Handler =
  error :: string
  action :: "ctx \<Rightarrow> exn option \<times> ctx"
  continue_on_error :: bool

record Authenticator =
  attrs :: ctx
  handlers :: "Handler list"

section \<open>The handler registry\<close>

text \<open>
  \<^verbatim>\<open>attach_handler\<close>: \<^verbatim>\<open>next(...)\<close> yields the first handler with the same error code and
  \<^verbatim>\<open>list.remove\<close> deletes the first element that is this object (\<^verbatim>\<open>Handler\<close> defines no
  \<^verbatim>\<open>__eq__\<close>), which is that handler; \<^verbatim>\<open>StopIteration\<close> (no such handler) is caught and
  ignored.  Then the new handler is appended.
\<close>

fun remove_first :: "('a \<Rightarrow> bool) \<Rightarrow> 'a list \<Rightarrow> 'a list" where
  "remove_first P [] = []"
| "remove_first P (x # xs) = (if P x then xs else x # remove_first P xs)"

definition attach_handler :: "Authenticator \<Rightarrow> Handler \<Rightarrow> Authenticator" where
  "attach_handler a handler =
     a\<lparr>handlers := remove_first (\<lambda>h. error h = error handler) (handlers a) @ [handler]\<rparr>"

definition get_handlers :: "Authenticator \<Rightarrow> Handler list" where
  "get_handlers a = handlers a"

text \<open>
  \<^verbatim>\<open>time.sleep\<close>: a non-negative integer (or a bool, which is an integer) is slept; a
  negative one is a \<^verbatim>\<open>ValueError\<close>, anything else a \<^verbatim>\<open>TypeError\<close>.
\<close>

fun time_sleep :: "json \<Rightarrow> ctx \<Rightarrow> exn option \<times> ctx" where
  "time_sleep (JInt n) c =
     (if n < 0 then (Some (ValueError ''sleep length must be non-negative''), c)
      else (None, c\<lparr>slept := slept c @ [n]\<rparr>))"
| "time_sleep (JBool b) c = (None, c\<lparr>slept := slept c @ [if b then 1 else 0]\<rparr>)"
| "time_sleep v c = (Some (TypeError ''an integer is required''), c)"

text \<open>\<^verbatim>\<open>lambda ctx: time.sleep(ctx.auth_info.interval)\<close>\<close>

definition authorization_pending_action :: "ctx \<Rightarrow> exn option \<times> ctx" where
  "authorization_pending_action c =
     (case auth_info c of
        None \<Rightarrow> (Some (AttributeError ''interval''), c)
      | Some ai \<Rightarrow> time_sleep (interval ai) c)"

text \<open>
  \<^verbatim>\<open>lambda ctx: ctx.poll_interval == ctx.poll_interval + 5\<close>: the body is a comparison.
  The caller drops the value of the lambda, so calling it is \<open>expression_action\<close>.
\<close>

definition slow_down_lambda :: "ctx \<Rightarrow> bool" where
  "slow_down_lambda c = (poll_interval c = poll_interval c + 5)"

definition expression_action :: "(ctx \<Rightarrow> 'v) \<Rightarrow> ctx \<Rightarrow> exn option \<times> ctx" where
  "expression_action f c = (let v = f c in (None, c))"

definition get_default_handlers :: "Handler list" where
  "get_default_handlers =
     [\<lparr>error = ''authorization_pending'', action = authorization_pending_action,
       continue_on_error = True\<rparr>,
      \<lparr>error = ''slow_down'', action = expression_action slow_down_lambda,
       continue_on_error = True\<rparr>]"

text \<open>\<^verbatim>\<open>Authenticator.__init__\<close>\<close>

definition init :: "string \<Rightarrow> string \<Rightarrow> string \<Rightarrow> string list option \<Rightarrow> int
    \<Rightarrow> (string \<times> json) list \<Rightarrow> Authenticator" where
  "init cid aurl turl sc pi extras =
     fold (\<lambda>handler a. attach_handler a handler) get_default_handlers
       \<lparr>attrs = \<lparr>client_id = cid, auth_url = aurl, token_url = turl, scopes = sc,
                 poll_interval = pi, auth_info = None,
                 dc = \<lparr>dc_client_id = cid, dc_scope = sc, dc_extras = extras\<rparr>,
                 slept = []\<rparr>,
        handlers = []\<rparr>"

section \<open>ping\<close>

text \<open>
  The construction of the \<^verbatim>\<open>LoctocatAuthInfo\<close>: the arguments are evaluated in the order
  written, a subscript of a missing key raises \<^verbatim>\<open>KeyError\<close>, \<^verbatim>\<open>.get\<close> yields \<^verbatim>\<open>None\<close>.
\<close>

definition build_auth_info :: "response \<Rightarrow> exn + LoctocatAuthInfo" where
  "build_auth_info r =
     (case r ''device_code'' of
        None \<Rightarrow> Inl (KeyError ''device_code'')
      | Some d \<Rightarrow>
     (case r ''user_code'' of
        None \<Rightarrow> Inl (KeyError ''user_code'')
      | Some u \<Rightarrow>
     (let v = py_or (py_get r ''verification_uri'') (py_get r ''verification_url'') in
     (case r ''expires_in'' of
        None \<Rightarrow> Inl (KeyError ''expires_in'')
      | Some e \<Rightarrow>
     (case r ''interval'' of
        None \<Rightarrow> Inl (KeyError ''interval'')
      | Some i \<Rightarrow>
          Inr \<lparr>device_code = d, user_code = u, verification_uri = v,
               expires_in = e, interval = i\<rparr>)))))"

text \<open>
  \<^verbatim>\<open>ping\<close> (the same statements in \<^verbatim>\<open>Authenticator\<close> and \<^verbatim>\<open>AsyncAuthenticator\<close>): the
  result, the Authenticator afterwards and the requests sent.
\<close>

definition ping :: "Authenticator \<Rightarrow> reply \<Rightarrow> (exn + LoctocatAuthInfo) \<times> Authenticator \<times> request list" where
  "ping a rep =
     (let uri = prepare_request_uri (dc (attrs a)) (auth_url (attrs a)) [] in
      case rep of
        Inl e \<Rightarrow> (Inl e, a, [uri])
      | Inr response \<Rightarrow>
          (case build_auth_info response of
             Inl e \<Rightarrow> (Inl e, a, [uri])
           | Inr ai \<Rightarrow> (Inr ai, a\<lparr>attrs := (attrs a)\<lparr>auth_info := Some ai\<rparr>\<rparr>, [uri])))"

section \<open>poll\<close>

text \<open>\<^verbatim>\<open>next((h for h in self._handlers if h.error == response["error"]), None)\<close>\<close>

definition lookup_handler :: "Handler list \<Rightarrow> json \<Rightarrow> Handler option" where
  "lookup_handler hs code = find (\<lambda>h. JStr (error h) = code) hs"

text \<open>
  How one turn of a \<^verbatim>\<open>while True\<close> loop ends: \<^verbatim>\<open>continue\<close> (or the end of the body)
  goes on with the next turn; \<^verbatim>\<open>return\<close>, \<^verbatim>\<open>raise\<close> and \<^verbatim>\<open>break\<close> leave the loop.
\<close>

datatype turn = Continue Authenticator | Exit "json outcome" Authenticator

text \<open>
  The body of the loop of \<^verbatim>\<open>Authenticator.poll\<close>, given what the POST of this turn
  yields.  After \<^verbatim>\<open>break\<close> the function ends, which returns \<^verbatim>\<open>None\<close>.
\<close>

definition poll_turn :: "Authenticator \<Rightarrow> reply \<Rightarrow> turn" where
  "poll_turn a rep =
     (case rep of
        Inl e \<Rightarrow> Exit (Raised e) a
      | Inr response \<Rightarrow>
          (case response ''error'' of
             Some code \<Rightarrow>
               (case lookup_handler (handlers a) code of
                  Some handler \<Rightarrow>
                    (case action handler (attrs a) of
                       (Some e, c) \<Rightarrow> Exit (Raised e) (a\<lparr>attrs := c\<rparr>)
                     | (None, c) \<Rightarrow>
                         if continue_on_error handler
                         then Continue (a\<lparr>attrs := c\<rparr>)
                         else Exit (Returned JNull) (a\<lparr>attrs := c\<rparr>))
                | None \<Rightarrow> Exit (Raised (ServerError (Raw code))) a)
           | None \<Rightarrow>
               (case response ''access_token'' of
                  Some t \<Rightarrow> Exit (Returned t) a
                | None \<Rightarrow> Exit (Raised (KeyError ''access_token'')) a)))"

text \<open>
  The loop.  \<open>uri\<close> is the local variable set before the loop, posted in every turn;
  \<open>sent\<close> collects the requests.  Each turn takes the next scripted reply.
\<close>

fun poll_loop :: "request \<Rightarrow> Authenticator \<Rightarrow> reply list \<Rightarrow> request list
    \<Rightarrow> json outcome \<times> Authenticator \<times> request list" where
  "poll_loop uri a [] sent = (Waiting, a, sent)"
| "poll_loop uri a (rep # rest) sent =
     (case poll_turn a rep of
        Continue a' \<Rightarrow> poll_loop uri a' rest (sent @ [uri])
      | Exit out a' \<Rightarrow> (out, a', sent @ [uri]))"

text \<open>
  \<^verbatim>\<open>Authenticator.poll\<close>: reading \<^verbatim>\<open>device_code\<close> of an \<^verbatim>\<open>auth_info\<close> that is \<^verbatim>\<open>None\<close>
  raises \<^verbatim>\<open>AttributeError\<close>.
\<close>

definition poll :: "Authenticator \<Rightarrow> reply list \<Rightarrow> json outcome \<times> Authenticator \<times> request list" where
  "poll a replies =
     (case auth_info (attrs a) of
        None \<Rightarrow> (Raised (AttributeError ''device_code''), a, [])
      | Some ai \<Rightarrow>
          poll_loop (prepare_request_uri (dc (attrs a)) (token_url (attrs a))
                       [(''device_code'', device_code ai)]) a replies [])"

text \<open>
  The body of the loop of \<^verbatim>\<open>AsyncAuthenticator.poll\<close>: after the action the body ends,
  whatever \<^verbatim>\<open>continue_on_error\<close> says, and the \<^verbatim>\<open>ServerError\<close> is built from an
  f-string.
\<close>

definition async_poll_turn :: "Authenticator \<Rightarrow> reply \<Rightarrow> turn" where
  "async_poll_turn a rep =
     (case rep of
        Inl e \<Rightarrow> Exit (Raised e) a
      | Inr response \<Rightarrow>
          (case response ''error'' of
             Some code \<Rightarrow>
               (case lookup_handler (handlers a) code of
                  Some handler \<Rightarrow>
                    (case action handler (attrs a) of
                       (Some e, c) \<Rightarrow> Exit (Raised e) (a\<lparr>attrs := c\<rparr>)
                     | (None, c) \<Rightarrow> Continue (a\<lparr>attrs := c\<rparr>))
                | None \<Rightarrow>
                    Exit (Raised (ServerError
                      (Formatted ''The server returned the following error: '' code))) a)
           | None \<Rightarrow>
               (case response ''access_token'' of
                  Some t \<Rightarrow> Exit (Returned t) a
                | None \<Rightarrow> Exit (Raised (KeyError ''access_token'')) a)))"

fun async_poll_loop :: "request \<Rightarrow> Authenticator \<Rightarrow> reply list \<Rightarrow> request list
    \<Rightarrow> json outcome \<times> Authenticator \<times> request list" where
  "async_poll_loop uri a [] sent = (Waiting, a, sent)"
| "async_poll_loop uri a (rep # rest) sent =
     (case async_poll_turn a rep of
        Continue a' \<Rightarrow> async_poll_loop uri a' rest (sent @ [uri])
      | Exit out a' \<Rightarrow> (out, a', sent @ [uri]))"

definition async_poll :: "Authenticator \<Rightarrow> reply list \<Rightarrow> json outcome \<times> Authenticator \<times> request list" where
  "async_poll a replies =
     (case auth_info (attrs a) of
        None \<Rightarrow> (Raised (AttributeError ''device_code''), a, [])
      | Some ai \<Rightarrow>
          async_poll_loop (prepare_request_uri (dc (attrs a)) (token_url (attrs a))
                             [(''device_code'', device_code ai)]) a replies [])"

section \<open>authenticate\<close>

text \<open>
  The display collaborators: a \<^verbatim>\<open>Halo\<close> spinner (its text and its style), what is
  printed, and the calls made on the console and on the spinner, in order.  The default
  message is an f-string over the verification URI and the user code.
\<close>

datatype Halo = Halo string string

datatype printed = Literal string | DefaultMessage json json

datatype event = Print printed | Start Halo | Succeed Halo "string option" | Stop Halo

record arguments =
  use_default_message :: bool
  message :: "string option"
  use_default_success_message :: bool
  success_message :: "string option"
  use_default_spinner :: bool
  spinner :: "Halo option"

definition str_truthy :: "string option \<Rightarrow> bool" where
  "str_truthy m = (case m of None \<Rightarrow> False | Some s \<Rightarrow> s \<noteq> [])"

text \<open>
  \<^verbatim>\<open>_Spinner\<close>: every method runs only when a spinner is held and otherwise returns the
  \<^verbatim>\<open>_Spinner\<close> itself.  \<^verbatim>\<open>__enter__\<close> starts the spinner; \<^verbatim>\<open>__exit__\<close> stops it and
  returns \<^verbatim>\<open>None\<close>, or returns the \<^verbatim>\<open>_Spinner\<close>, which is truthy, so that the
  \<^verbatim>\<open>with\<close> statement drops a pending exception; \<open>spinner_succeed\<close> is the call
  \<^verbatim>\<open>sp.succeed(...)\<close> on what \<^verbatim>\<open>__enter__\<close> returned.
\<close>

definition spinner_enter :: "Halo option \<Rightarrow> event list" where
  "spinner_enter sp = (case sp of Some h \<Rightarrow> [Start h] | None \<Rightarrow> [])"

definition spinner_exit :: "Halo option \<Rightarrow> event list \<times> bool" where
  "spinner_exit sp = (case sp of Some h \<Rightarrow> ([Stop h], False) | None \<Rightarrow> ([], True))"

definition spinner_succeed :: "Halo option \<Rightarrow> string option \<Rightarrow> event list" where
  "spinner_succeed sp t = (case sp of Some h \<Rightarrow> [Succeed h t] | None \<Rightarrow> [])"

text \<open>The two \<^verbatim>\<open>if\<close> chains of \<^verbatim>\<open>authenticate\<close>, before and after polling.\<close>

definition message_events :: "arguments \<Rightarrow> LoctocatAuthInfo \<Rightarrow> event list" where
  "message_events args info =
     (if use_default_message args \<and> \<not> str_truthy (message args)
      then [Print (DefaultMessage (verification_uri info) (user_code info))]
      else if str_truthy (message args)
      then (case message args of Some m \<Rightarrow> [Print (Literal m)] | None \<Rightarrow> [])
      else [])"

definition success_events :: "arguments \<Rightarrow> Halo option \<Rightarrow> event list" where
  "success_events args sp =
     (if use_default_success_message args \<and> \<not> str_truthy (success_message args)
      then spinner_succeed sp (Some ''Authentication successful!'')
      else if str_truthy (success_message args)
      then spinner_succeed sp (success_message args)
      else spinner_succeed sp None)"

definition chosen_spinner :: "arguments \<Rightarrow> Halo option" where
  "chosen_spinner args =
     (if use_default_spinner args \<and> spinner args = None
      then Some (Halo ''Waiting for authentication...'' ''dots'')
      else spinner args)"

text \<open>
  \<^verbatim>\<open>Authenticator.authenticate\<close>: the result, the Authenticator afterwards, the requests
  sent and the display calls made.  \<^verbatim>\<open>self.auth_info\<close> is the object that \<^verbatim>\<open>ping\<close> has
  just stored and returned.
\<close>

definition authenticate :: "Authenticator \<Rightarrow> arguments \<Rightarrow> reply \<Rightarrow> reply list
    \<Rightarrow> json outcome \<times> Authenticator \<times> request list \<times> event list" where
  "authenticate a args ping_reply poll_replies =
     (case ping a ping_reply of
        (Inl e, a1, sent1) \<Rightarrow> (Raised e, a1, sent1, [])
      | (Inr info, a1, sent1) \<Rightarrow>
          (let shown = message_events args info;
               sp = chosen_spinner args;
               entered = spinner_enter sp
           in case poll a1 poll_replies of
                (Returned token, a2, sent2) \<Rightarrow>
                  (Returned token, a2, sent1 @ sent2,
                   shown @ entered @ success_events args sp @ fst (spinner_exit sp))
              | (Raised e, a2, sent2) \<Rightarrow>
                  ((if snd (spinner_exit sp) then Returned JNull else Raised e), a2,
                   sent1 @ sent2, shown @ entered @ fst (spinner_exit sp))
              | (Waiting, a2, sent2) \<Rightarrow> (Waiting, a2, sent1 @ sent2, shown @ entered)))"

section \<open>Example inputs\<close>

definition example_authenticator :: Authenticator where
  "example_authenticator =
     init ''client'' ''https://auth.example/device'' ''https://auth.example/token'' None 5 []"

definition example_device_response :: response where
  "example_device_response =
     [''device_code'' \<mapsto> JStr ''dev-1'', ''user_code'' \<mapsto> JStr ''ABCD-1234'',
      ''verification_uri'' \<mapsto> JStr ''https://auth.example/activate'',
      ''expires_in'' \<mapsto> JInt 900, ''interval'' \<mapsto> JInt 5]"

definition example_pinged :: Authenticator where
  "example_pinged = fst (snd (ping example_authenticator (Inr example_device_response)))"

definition error_response :: "string \<Rightarrow> reply" where
  "error_response code = Inr [''error'' \<mapsto> JStr code]"

definition token_response :: "string \<Rightarrow> reply" where
  "token_response t = Inr [''access_token'' \<mapsto> JStr t, ''token_type'' \<mapsto> JStr ''bearer'']"

definition cancel_handler :: Handler where
  "cancel_handler =
     \<lparr>error = ''access_denied'', action = (\<lambda>c. (None, c)), continue_on_error = False\<rparr>"

definition first_handler :: Handler where
  "first_handler =
     \<lparr>error = ''slow_down'', action = (\<lambda>c. (None, c)), continue_on_error = False\<rparr>"

definition second_handler :: Handler where
  "second_handler =
     \<lparr>error = ''slow_down'',
      action = (\<lambda>c. (None, c\<lparr>poll_interval := poll_interval c + 5\<rparr>)),
      continue_on_error = True\<rparr>"

definition example_info :: LoctocatAuthInfo where
  "example_info =
     \<lparr>device_code = JStr ''dev-1'', user_code = JStr ''ABCD-1234'',
      verification_uri = JStr ''https://auth.example/activate'',
      expires_in = JInt 900, interval = JInt 5\<rparr>"

definition example_token_request :: request where
  "example_token_request =
     \<lparr>endpoint = ''https://auth.example/token'',
      client = \<lparr>dc_client_id = ''client'', dc_scope = None, dc_extras = []\<rparr>,
      kwargs = [(''device_code'', JStr ''dev-1'')]\<rparr>"

definition example_cancellable :: Authenticator where
  "example_cancellable = attach_handler example_pinged cancel_handler"

definition reissue_handler :: Handler where
  "reissue_handler =
     \<lparr>error = ''authorization_pending'',
      action = (\<lambda>c. (None, c\<lparr>auth_info := Some (example_info\<lparr>device_code := JStr ''dev-2''\<rparr>)\<rparr>)),
      continue_on_error = True\<rparr>"


definition example_waited :: Authenticator where
  "example_waited = example_cancellable\<lparr>attrs := (attrs example_cancellable)\<lparr>slept := [5]\<rparr>\<rparr>"


definition default_arguments :: arguments where
  "default_arguments =
     \<lparr>use_default_message = True, message = None, use_default_success_message = True,
      success_message = None, use_default_spinner = True, spinner = None\<rparr>"

definition example_device_request :: request where
  "example_device_request =
     \<lparr>endpoint = ''https://auth.example/device'',
      client = \<lparr>dc_client_id = ''client'', dc_scope = None, dc_extras = []\<rparr>,
      kwargs = []\<rparr>"

definition example_with_cancel :: Authenticator where
  "example_with_cancel = attach_handler example_authenticator cancel_handler"

definition example_display :: "event list" where
  "example_display =
     [Print (DefaultMessage (JStr ''https://auth.example/activate'') (JStr ''ABCD-1234'')),
      Start (Halo ''Waiting for authentication...'' ''dots''),
      Succeed (Halo ''Waiting for authentication...'' ''dots'')
        (Some ''Authentication successful!''),
      Stop (Halo ''Waiting for authentication...'' ''dots'')]"

section \<open>The handler registry holds one handler for each error code\<close>

lemma remove_first_distinct:
  "distinct (map error hs) \<Longrightarrow>
   remove_first (\<lambda>h. error h = e) hs = filter (\<lambda>h. error h \<noteq> e) hs"
proof (induction hs)
  case Nil
  then show ?case by simp
next
  case (Cons y ys)
  show ?case
  proof (cases "error y = e")
    case True
    with Cons.prems have "\<forall>h \<in> set ys. error h \<noteq> e" by (auto simp: image_iff)
    then have "filter (\<lambda>h. error h \<noteq> e) ys = ys" by simp
    then show ?thesis using True by simp
  next
    case False
    then show ?thesis using Cons by simp
  qed
qed

lemma handlers_attach_handler:
  "distinct (map error (handlers a)) \<Longrightarrow>
   handlers (attach_handler a h) = filter (\<lambda>x. error x \<noteq> error h) (handlers a) @ [h]"
  by (simp add: attach_handler_def remove_first_distinct)

lemma distinct_attach_handler:
  assumes "distinct (map error (handlers a))"
  shows "distinct (map error (handlers (attach_handler a h)))"
proof -
  have "distinct (map error (filter (\<lambda>x. error x \<noteq> error h) (handlers a)))"
    using assms by (rule distinct_map_filter)
  then show ?thesis using assms by (auto simp: handlers_attach_handler)
qed

lemma distinct_attach_all:
  "distinct (map error (handlers a)) \<Longrightarrow>
   distinct (map error (handlers (fold (\<lambda>h a. attach_handler a h) hs a)))"
  by (induction hs arbitrary: a) (simp_all add: distinct_attach_handler)

lemma distinct_init: "distinct (map error (handlers (init cid au tu sc pi ex)))"
  unfolding init_def by (rule distinct_attach_all) simp

lemma only_the_attached:
  assumes "distinct (map error (handlers a))"
  shows "filter (\<lambda>x. error x = error h) (handlers (attach_handler a h)) = [h]"
  using assms by (simp add: handlers_attach_handler)

lemma find_append_last:
  "\<forall>x \<in> set xs. \<not> P x \<Longrightarrow> P y \<Longrightarrow> find P (xs @ [y]) = Some y"
  by (induction xs) simp_all

lemma lookup_the_attached:
  assumes "distinct (map error (handlers a))"
  shows "lookup_handler (handlers (attach_handler a h)) (JStr (error h)) = Some h"
  using assms by (simp add: handlers_attach_handler lookup_handler_def find_append_last)

lemma find_filter_implied:
  "(\<And>x. P x \<Longrightarrow> Q x) \<Longrightarrow> find P (filter Q xs) = find P xs"
  by (induction xs) auto

lemma find_append_either:
  "find P (xs @ ys) = (case find P xs of Some x \<Rightarrow> Some x | None \<Rightarrow> find P ys)"
  by (induction xs) simp_all

lemma lookup_the_others:
  assumes "distinct (map error (handlers a))" and "e \<noteq> error h"
  shows "lookup_handler (handlers (attach_handler a h)) (JStr e)
           = lookup_handler (handlers a) (JStr e)"
proof -
  have "find (\<lambda>x. JStr (error x) = JStr e) (filter (\<lambda>x. error x \<noteq> error h) (handlers a))
          = find (\<lambda>x. JStr (error x) = JStr e) (handlers a)"
    using assms(2) by (intro find_filter_implied) auto
  then show ?thesis
    using assms
    by (simp add: handlers_attach_handler lookup_handler_def find_append_either
        split: option.splits)
qed

lemma fold_attach_snoc:
  "fold (\<lambda>h a. attach_handler a h) (hs @ [h]) a = attach_handler (fold (\<lambda>h a. attach_handler a h) hs a) h"
  by simp

lemma lookup_attach_all:
  assumes "distinct (map error (handlers a))"
  shows "lookup_handler (handlers (fold (\<lambda>h a. attach_handler a h) hs a)) (JStr e) =
           (case find (\<lambda>x. error x = e) (rev hs) of
              Some h \<Rightarrow> Some h
            | None \<Rightarrow> lookup_handler (handlers a) (JStr e))"
proof (induction hs rule: rev_induct)
  case Nil
  then show ?case by simp
next
  case (snoc h hs)
  have d: "distinct (map error (handlers (fold (\<lambda>h a. attach_handler a h) hs a)))"
    using assms by (rule distinct_attach_all)
  show ?case
  proof (cases "error h = e")
    case True
    then show ?thesis
      using lookup_the_attached [OF d, of h] by (simp del: fold_append add: fold_attach_snoc)
  next
    case False
    then have "e \<noteq> error h" by auto
    from lookup_the_others [OF d this] snoc False show ?thesis
      by (simp del: fold_append add: fold_attach_snoc)
  qed
qed

lemma lookup_init_attach_all:
  "lookup_handler (handlers (fold (\<lambda>h a. attach_handler a h) hs (init cid au tu sc pi ex)))
     (JStr e) = find (\<lambda>x. error x = e) (rev (get_default_handlers @ hs))"
proof -
  have "lookup_handler (handlers (init cid au tu sc pi ex)) (JStr e) =
          find (\<lambda>x. error x = e) (rev get_default_handlers)"
    unfolding init_def
    by (subst lookup_attach_all) (simp_all add: lookup_handler_def split: option.splits)
  then show ?thesis
    using lookup_attach_all [OF distinct_init, of hs cid au tu sc pi ex e]
    by (simp add: find_append_either split: option.splits)
qed

lemma attach_handler_twice:
  assumes "distinct (map error (handlers a))" and "error h1 = error h"
  shows "handlers (attach_handler (attach_handler a h1) h) = handlers (attach_handler a h)"
  using assms distinct_attach_handler [OF assms(1), of h1]
  by (simp add: handlers_attach_handler)

text \<open>
  C7.  Let \<open>a\<close> be a freshly constructed Authenticator to which the handlers \<open>hs\<close> have
  been attached, in this order.  No two registered handlers have the same error code, and
  the handler found for an error code is the last one attached for it, the default ones
  counting as attached first.  Attaching \<open>h\<close> deletes the registered handler with the same
  error code, wherever it stands, keeps all the others in their order and puts \<open>h\<close> last;
  nothing else of the Authenticator changes.  Then \<open>h\<close> is the only registered handler for
  its code and the one found for it, and a handler \<open>h1\<close> with the same code attached just
  before leaves no trace.
\<close>

theorem attach_handler_last_write_wins:
  assumes "a = fold (\<lambda>h a. attach_handler a h) hs (init cid au tu sc pi ex)"
  shows "distinct (map error (get_handlers a)) \<and>
         lookup_handler (get_handlers a) (JStr e)
           = find (\<lambda>x. error x = e) (rev (get_default_handlers @ hs)) \<and>
         get_handlers (attach_handler a h)
           = filter (\<lambda>x. error x \<noteq> error h) (get_handlers a) @ [h] \<and>
         attrs (attach_handler a h) = attrs a \<and>
         distinct (map error (get_handlers (attach_handler a h))) \<and>
         filter (\<lambda>x. error x = error h) (get_handlers (attach_handler a h)) = [h] \<and>
         lookup_handler (get_handlers (attach_handler a h)) (JStr (error h)) = Some h \<and>
         (error h1 = error h \<longrightarrow>
            get_handlers (attach_handler (attach_handler a h1) h)
              = get_handlers (attach_handler a h))"
proof -
  have d: "distinct (map error (handlers a))"
    unfolding assms by (rule distinct_attach_all) (rule distinct_init)
  have "lookup_handler (handlers a) (JStr e)
           = find (\<lambda>x. error x = e) (rev (get_default_handlers @ hs))"
    unfolding assms by (rule lookup_init_attach_all)
  moreover have "handlers (attach_handler a h)
      = filter (\<lambda>x. error x \<noteq> error h) (handlers a) @ [h]"
    using d by (rule handlers_attach_handler)
  moreover have "attrs (attach_handler a h) = attrs a"
    by (simp add: attach_handler_def)
  moreover have "distinct (map error (handlers (attach_handler a h)))"
    using d by (rule distinct_attach_handler)
  moreover have "filter (\<lambda>x. error x = error h) (handlers (attach_handler a h)) = [h]"
    using d by (rule only_the_attached)
  moreover have "lookup_handler (handlers (attach_handler a h)) (JStr (error h)) = Some h"
    using d by (rule lookup_the_attached)
  moreover have "error h1 = error h \<longrightarrow>
      handlers (attach_handler (attach_handler a h1) h) = handlers (attach_handler a h)"
    using d by (simp add: attach_handler_twice)
  ultimately show ?thesis using d by (simp add: get_handlers_def)
qed

theorem attach_handler_last_write_wins_witness:
  "get_handlers (attach_handler example_authenticator reissue_handler)
     = [\<lparr>error = ''slow_down'', action = expression_action slow_down_lambda,
         continue_on_error = True\<rparr>, reissue_handler] \<and>
   lookup_handler (get_handlers (attach_handler example_authenticator reissue_handler))
     (JStr ''authorization_pending'') = Some reissue_handler \<and>
   lookup_handler (get_handlers example_authenticator) (JStr ''authorization_pending'')
     = Some \<lparr>error = ''authorization_pending'', action = authorization_pending_action,
             continue_on_error = True\<rparr> \<and>
   error first_handler = error second_handler \<and>
   get_handlers (attach_handler (attach_handler example_authenticator first_handler)
        second_handler)
     = [\<lparr>error = ''authorization_pending'', action = authorization_pending_action,
         continue_on_error = True\<rparr>, second_handler]"
proof -
  have a: "example_authenticator = fold (\<lambda>h a. attach_handler a h) []
      (init ''client'' ''https://auth.example/device'' ''https://auth.example/token'' None 5 [])"
    by (simp add: example_authenticator_def)
  have g: "get_handlers example_authenticator = get_default_handlers"
    by (simp add: get_handlers_def example_authenticator_def init_def attach_handler_def
        get_default_handlers_def)
  have e: "error first_handler = error second_handler"
    by (simp add: first_handler_def second_handler_def)
  have r: "error reissue_handler = ''authorization_pending''"
    by (simp add: reissue_handler_def)
  have s: "error second_handler = ''slow_down''"
    by (simp add: second_handler_def)
  note t1 = attach_handler_last_write_wins [OF a, where h = reissue_handler
      and e = "''authorization_pending''" and ?h1.0 = first_handler]
  note t2 = attach_handler_last_write_wins [OF a, where h = second_handler
      and e = "''slow_down''" and ?h1.0 = first_handler]
  from t1 have a2: "lookup_handler (get_handlers example_authenticator)
        (JStr ''authorization_pending'')
      = find (\<lambda>x. error x = ''authorization_pending'') (rev (get_default_handlers @ []))"
    and a3: "get_handlers (attach_handler example_authenticator reissue_handler)
      = filter (\<lambda>x. error x \<noteq> error reissue_handler) (get_handlers example_authenticator)
          @ [reissue_handler]"
    and a7: "lookup_handler (get_handlers (attach_handler example_authenticator reissue_handler))
        (JStr (error reissue_handler)) = Some reissue_handler"
    by blast+
  from t2 e have b3: "get_handlers (attach_handler example_authenticator second_handler)
      = filter (\<lambda>x. error x \<noteq> error second_handler) (get_handlers example_authenticator)
          @ [second_handler]"
    and b8: "get_handlers (attach_handler (attach_handler example_authenticator first_handler)
        second_handler) = get_handlers (attach_handler example_authenticator second_handler)"
    by blast+
  have 1: "get_handlers (attach_handler example_authenticator reissue_handler)
     = [\<lparr>error = ''slow_down'', action = expression_action slow_down_lambda,
         continue_on_error = True\<rparr>, reissue_handler]"
    unfolding a3 g r by (simp add: get_default_handlers_def)
  have 2: "lookup_handler (get_handlers (attach_handler example_authenticator reissue_handler))
     (JStr ''authorization_pending'') = Some reissue_handler"
    using a7 unfolding r .
  have 3: "lookup_handler (get_handlers example_authenticator) (JStr ''authorization_pending'')
     = Some \<lparr>error = ''authorization_pending'', action = authorization_pending_action,
             continue_on_error = True\<rparr>"
    unfolding a2 by (simp add: get_default_handlers_def)
  have 4: "get_handlers (attach_handler (attach_handler example_authenticator first_handler)
        second_handler)
     = [\<lparr>error = ''authorization_pending'', action = authorization_pending_action,
         continue_on_error = True\<rparr>, second_handler]"
    unfolding b8 b3 g s by (simp add: get_default_handlers_def)
  show ?thesis
    using e 1 2 3 4 by simp
qed

section \<open>The poll loop, turn by turn\<close>

lemma poll_turn_never_Waiting: "poll_turn a rep \<noteq> Exit Waiting a'"
  by (auto simp: poll_turn_def split: sum.splits option.splits prod.splits)

lemma async_poll_turn_never_Waiting: "async_poll_turn a rep \<noteq> Exit Waiting a'"
  by (auto simp: async_poll_turn_def split: sum.splits option.splits prod.splits)

lemma poll_loop_Waiting_append:
  "poll_loop uri a xs sent = (Waiting, a1, s1) \<Longrightarrow>
   poll_loop uri a (xs @ ys) sent = poll_loop uri a1 ys s1"
  by (induction xs arbitrary: a sent)
     (auto simp: poll_turn_never_Waiting split: turn.splits)

lemma async_poll_loop_Waiting_append:
  "async_poll_loop uri a xs sent = (Waiting, a1, s1) \<Longrightarrow>
   async_poll_loop uri a (xs @ ys) sent = async_poll_loop uri a1 ys s1"
  by (induction xs arbitrary: a sent)
     (auto simp: async_poll_turn_never_Waiting split: turn.splits)


lemma poll_turn_Returned:
  "poll_turn a rep = Exit (Returned v) a' \<Longrightarrow>
   \<exists>response. rep = Inr response \<and>
     ((response ''error'' = None \<and> response ''access_token'' = Some v \<and> a' = a) \<or>
      (\<exists>code h c. response ''error'' = Some code \<and>
         lookup_handler (handlers a) code = Some h \<and> \<not> continue_on_error h \<and>
         action h (attrs a) = (None, c) \<and> v = JNull \<and> a' = a\<lparr>attrs := c\<rparr>))"
  by (auto simp: poll_turn_def split: sum.splits option.splits prod.splits if_splits)

lemma poll_loop_Returned:
  "poll_loop uri a replies s0 = (Returned v, a', sent) \<Longrightarrow>
   \<exists>pre response rest a1 s1.
     replies = pre @ Inr response # rest \<and> poll_loop uri a pre s0 = (Waiting, a1, s1) \<and>
     sent = s1 @ [uri] \<and>
     ((response ''error'' = None \<and> response ''access_token'' = Some v \<and> a' = a1) \<or>
      (\<exists>code h c. response ''error'' = Some code \<and>
         lookup_handler (handlers a1) code = Some h \<and> \<not> continue_on_error h \<and>
         action h (attrs a1) = (None, c) \<and> v = JNull \<and> a' = a1\<lparr>attrs := c\<rparr>))"
proof (induction replies arbitrary: a s0)
  case Nil
  then show ?case by simp
next
  case (Cons rep replies)
  show ?case
  proof (cases "poll_turn a rep")
    case (Continue a0)
    with Cons.prems have "poll_loop uri a0 replies (s0 @ [uri]) = (Returned v, a', sent)"
      by simp
    from Cons.IH [OF this] obtain pre response rest a1 s1 where
      r: "replies = pre @ Inr response # rest"
      and p: "poll_loop uri a0 pre (s0 @ [uri]) = (Waiting, a1, s1)"
      and s: "sent = s1 @ [uri]"
      and e: "(response ''error'' = None \<and> response ''access_token'' = Some v \<and> a' = a1) \<or>
        (\<exists>code h c. response ''error'' = Some code \<and>
           lookup_handler (handlers a1) code = Some h \<and> \<not> continue_on_error h \<and>
           action h (attrs a1) = (None, c) \<and> v = JNull \<and> a' = a1\<lparr>attrs := c\<rparr>)"
      by blast
    have "rep # replies = (rep # pre) @ Inr response # rest" using r by simp
    moreover have "poll_loop uri a (rep # pre) s0 = (Waiting, a1, s1)"
      using p Continue by simp
    ultimately show ?thesis using s e by blast
  next
    case (Exit out1 a1)
    with Cons.prems have x: "poll_turn a rep = Exit (Returned v) a'" and s: "sent = s0 @ [uri]"
      by simp_all
    from poll_turn_Returned [OF x] obtain response where rep: "rep = Inr response"
      and e: "(response ''error'' = None \<and> response ''access_token'' = Some v \<and> a' = a) \<or>
        (\<exists>code h c. response ''error'' = Some code \<and>
           lookup_handler (handlers a) code = Some h \<and> \<not> continue_on_error h \<and>
           action h (attrs a) = (None, c) \<and> v = JNull \<and> a' = a\<lparr>attrs := c\<rparr>)"
      by blast
    have "rep # replies = [] @ Inr response # replies" using rep by simp
    moreover have "poll_loop uri a [] s0 = (Waiting, a, s0)" by simp
    ultimately show ?thesis using s e by blast
  qed
qed

lemma poll_Waiting:
  "poll a pre = (Waiting, a1, sent) \<Longrightarrow> auth_info (attrs a) = Some ai \<Longrightarrow>
   poll a (pre @ replies) =
     poll_loop (prepare_request_uri (dc (attrs a)) (token_url (attrs a))
                  [(''device_code'', device_code ai)]) a1 replies sent"
  by (simp add: poll_def poll_loop_Waiting_append)

lemma async_poll_Waiting:
  "async_poll a pre = (Waiting, a1, sent) \<Longrightarrow> auth_info (attrs a) = Some ai \<Longrightarrow>
   async_poll a (pre @ replies) =
     async_poll_loop (prepare_request_uri (dc (attrs a)) (token_url (attrs a))
                  [(''device_code'', device_code ai)]) a1 replies sent"
  by (simp add: async_poll_def async_poll_loop_Waiting_append)

section \<open>The example Authenticators, evaluated\<close>

lemma authenticator_handlers: "handlers example_authenticator = get_default_handlers"
  by (simp add: example_authenticator_def init_def attach_handler_def get_default_handlers_def)

lemma authenticator_auth_info: "auth_info (attrs example_authenticator) = None"
  by (simp add: example_authenticator_def init_def attach_handler_def get_default_handlers_def)

lemma build_example_info: "build_auth_info example_device_response = Inr example_info"
  by (simp add: build_auth_info_def example_device_response_def example_info_def py_or_def
      py_get_def)

lemma pinged_handlers: "handlers example_pinged = get_default_handlers"
  by (simp add: example_pinged_def ping_def build_example_info authenticator_handlers)

lemma pinged_attrs:
  "attrs example_pinged =
     \<lparr>client_id = ''client'', auth_url = ''https://auth.example/device'',
      token_url = ''https://auth.example/token'', scopes = None, poll_interval = 5,
      auth_info = Some example_info,
      dc = \<lparr>dc_client_id = ''client'', dc_scope = None, dc_extras = []\<rparr>, slept = []\<rparr>"
  by (simp add: example_pinged_def ping_def build_example_info)
     (simp add: example_authenticator_def init_def attach_handler_def get_default_handlers_def)

lemma pinged_request:
  "prepare_request_uri (dc (attrs example_pinged)) (token_url (attrs example_pinged))
     [(''device_code'', device_code example_info)] = example_token_request"
  by (simp add: pinged_attrs prepare_request_uri_def example_token_request_def example_info_def)

lemma poll_pinged:
  "poll example_pinged replies = poll_loop example_token_request example_pinged replies []"
  by (simp add: poll_def pinged_attrs pinged_request [simplified pinged_attrs, simplified])

lemma async_poll_pinged:
  "async_poll example_pinged replies =
     async_poll_loop example_token_request example_pinged replies []"
  by (simp add: async_poll_def pinged_attrs pinged_request [simplified pinged_attrs, simplified])

lemma cancellable_attrs: "attrs example_cancellable = attrs example_pinged"
  by (simp add: example_cancellable_def attach_handler_def)

lemma cancellable_handlers:
  "handlers example_cancellable = get_default_handlers @ [cancel_handler]"
  by (simp add: example_cancellable_def attach_handler_def pinged_handlers
      get_default_handlers_def cancel_handler_def)

lemma lookup_slow_down:
  "lookup_handler get_default_handlers (JStr ''slow_down'') =
     Some \<lparr>error = ''slow_down'', action = expression_action slow_down_lambda,
           continue_on_error = True\<rparr>"
  by (simp add: lookup_handler_def get_default_handlers_def)

lemma lookup_unregistered:
  "lookup_handler get_default_handlers (JStr ''expired_token'') = None"
  by (simp add: lookup_handler_def get_default_handlers_def)

lemma lookup_cancel:
  "lookup_handler (get_default_handlers @ [cancel_handler]) (JStr ''access_denied'')
     = Some cancel_handler"
  by (simp add: lookup_handler_def get_default_handlers_def cancel_handler_def)

lemma cancel_handler_fields:
  "action cancel_handler c = (None, c)" "continue_on_error cancel_handler = False"
  by (simp_all add: cancel_handler_def)

lemma poll_cancellable:
  "poll example_cancellable replies =
     poll_loop example_token_request example_cancellable replies []"
  by (simp add: poll_def cancellable_attrs pinged_attrs
      pinged_request [simplified pinged_attrs, simplified])

lemma async_poll_cancellable:
  "async_poll example_cancellable replies =
     async_poll_loop example_token_request example_cancellable replies []"
  by (simp add: async_poll_def cancellable_attrs pinged_attrs
      pinged_request [simplified pinged_attrs, simplified])

lemma lookup_pending:
  "lookup_handler (get_default_handlers @ [cancel_handler]) (JStr ''authorization_pending'')
     = Some \<lparr>error = ''authorization_pending'', action = authorization_pending_action,
             continue_on_error = True\<rparr>"
  by (simp add: lookup_handler_def get_default_handlers_def)

lemma pending_action_pinged:
  "authorization_pending_action (attrs example_pinged) =
     (None, (attrs example_pinged)\<lparr>slept := [5]\<rparr>)"
  by (simp add: authorization_pending_action_def pinged_attrs example_info_def)

lemma waited_handlers: "handlers example_waited = get_default_handlers @ [cancel_handler]"
  by (simp add: example_waited_def cancellable_handlers)

lemma poll_cancellable_pending:
  "poll example_cancellable [error_response ''authorization_pending'']
     = (Waiting, example_waited, [example_token_request])"
  by (simp add: poll_cancellable poll_turn_def cancellable_handlers lookup_pending
      error_response_def cancellable_attrs pending_action_pinged example_waited_def)

section \<open>The default handler for \<open>slow_down\<close>\<close>

lemma slow_down_action_changes_nothing: "expression_action slow_down_lambda c = (None, c)"
  by (simp add: expression_action_def)

text \<open>
  C1.  The claim is that the default \<open>slow_down\<close> handler adds 5 to \<open>poll_interval\<close>.
  Evaluated on a constructed and pinged Authenticator whose \<open>poll_interval\<close> is 5, with
  the replies \<open>slow_down\<close> and then a token: the loop does continue and returns the token
  after two requests, but the Authenticator is unchanged and \<open>poll_interval\<close> is still 5,
  because the action compares \<open>poll_interval\<close> with \<open>poll_interval + 5\<close> and assigns
  nothing.
\<close>

theorem slow_down_keeps_poll_interval:
  "poll_interval (attrs example_pinged) = 5 \<and>
   poll example_pinged [error_response ''slow_down'', token_response ''tok'']
     = (Returned (JStr ''tok''), example_pinged, [example_token_request, example_token_request]) \<and>
   poll_interval (attrs (fst (snd
     (poll example_pinged [error_response ''slow_down'', token_response ''tok''])))) = 5"
  by (simp add: poll_pinged poll_turn_def pinged_handlers lookup_slow_down
      error_response_def token_response_def expression_action_def pinged_attrs)

section \<open>The synchronous and the asynchronous poll\<close>

text \<open>
  C2.  The claim is that \<open>poll\<close> and \<open>async_poll\<close> end alike on every input.  Evaluated
  with a handler for \<open>access_denied\<close> whose \<open>continue_on_error\<close> is false, on the replies
  \<open>access_denied\<close> and then a token: \<open>poll\<close> stops after one request and returns
  \<open>None\<close>, \<open>async_poll\<close> sends a second request and returns the token.  On an
  unregistered error code both raise \<open>ServerError\<close>, one built from the code and the other
  from a message around it.
\<close>

theorem async_poll_differs_from_poll:
  "poll example_cancellable [error_response ''access_denied'', token_response ''tok'']
     = (Returned JNull, example_cancellable, [example_token_request]) \<and>
   async_poll example_cancellable [error_response ''access_denied'', token_response ''tok'']
     = (Returned (JStr ''tok''), example_cancellable,
        [example_token_request, example_token_request]) \<and>
   poll example_pinged [error_response ''expired_token'']
     = (Raised (ServerError (Raw (JStr ''expired_token''))), example_pinged,
        [example_token_request]) \<and>
   async_poll example_pinged [error_response ''expired_token'']
     = (Raised (ServerError
          (Formatted ''The server returned the following error: '' (JStr ''expired_token''))),
        example_pinged, [example_token_request])"
proof -
  have "poll example_cancellable [error_response ''access_denied'', token_response ''tok'']
     = (Returned JNull, example_cancellable, [example_token_request])"
    by (simp add: poll_cancellable poll_turn_def cancellable_handlers lookup_cancel
        error_response_def cancel_handler_fields)
  moreover have "async_poll example_cancellable
       [error_response ''access_denied'', token_response ''tok'']
     = (Returned (JStr ''tok''), example_cancellable,
        [example_token_request, example_token_request])"
    by (simp add: async_poll_cancellable async_poll_turn_def cancellable_handlers lookup_cancel
        error_response_def token_response_def cancel_handler_fields)
  moreover have "poll example_pinged [error_response ''expired_token'']
     = (Raised (ServerError (Raw (JStr ''expired_token''))), example_pinged,
        [example_token_request])"
    by (simp add: poll_pinged poll_turn_def pinged_handlers lookup_unregistered
        error_response_def)
  moreover have "async_poll example_pinged [error_response ''expired_token'']
     = (Raised (ServerError
          (Formatted ''The server returned the following error: '' (JStr ''expired_token''))),
        example_pinged, [example_token_request])"
    by (simp add: async_poll_pinged async_poll_turn_def pinged_handlers lookup_unregistered
        error_response_def)
  ultimately show ?thesis by simp
qed

section \<open>Leaving the loop\<close>

text \<open>
  C3.  The claim is that a handler whose \<open>continue_on_error\<close> is false gives the only way
  out of \<open>poll\<close> with neither a token nor an error.  Here both registered handlers
  continue, and the response has no \<open>error\<close> and an \<open>access_token\<close> that is \<open>null\<close>:
  \<open>poll\<close> returns \<open>None\<close> after one request and raises nothing.
\<close>

theorem poll_returns_null_access_token:
  "map continue_on_error (handlers example_pinged) = [True, True] \<and>
   poll example_pinged [Inr [''access_token'' \<mapsto> JNull]]
     = (Returned JNull, example_pinged, [example_token_request])"
  by (simp add: pinged_handlers get_default_handlers_def poll_pinged poll_turn_def)

text \<open>
  C3 (as amended).  Let \<open>poll\<close> have gone through the replies \<open>pre\<close> and be about to send
  the next request.  If the next response carries an error code whose registered handler
  has \<open>continue_on_error\<close> false, and the action of that handler returns, then \<open>poll\<close>
  returns \<open>None\<close> after this one request, whatever replies would follow: no token, no
  exception.  And whenever \<open>poll\<close> returns without raising, the last response it read
  either had no \<open>error\<close> and the value returned is its \<open>access_token\<close>, whatever that is,
  or it is such a silent stop.
\<close>

theorem poll_silent_stop:
  assumes "auth_info (attrs a) = Some ai"
  shows "(poll a pre = (Waiting, a1, sent) \<and> response ''error'' = Some code \<and>
          lookup_handler (handlers a1) code = Some h \<and> \<not> continue_on_error h \<and>
          action h (attrs a1) = (None, c) \<longrightarrow>
          poll a (pre @ Inr response # rest) =
            (Returned JNull, a1\<lparr>attrs := c\<rparr>,
             sent @ [prepare_request_uri (dc (attrs a)) (token_url (attrs a))
                       [(''device_code'', device_code ai)]])) \<and>
         (poll a replies = (Returned v, a', sent') \<longrightarrow>
          (\<exists>pre response rest a1.
             replies = pre @ Inr response # rest \<and> poll a pre = (Waiting, a1, butlast sent') \<and>
             ((response ''error'' = None \<and> response ''access_token'' = Some v \<and> a' = a1) \<or>
              (\<exists>code h c. response ''error'' = Some code \<and>
                 lookup_handler (handlers a1) code = Some h \<and> \<not> continue_on_error h \<and>
                 action h (attrs a1) = (None, c) \<and> v = JNull \<and> a' = a1\<lparr>attrs := c\<rparr>))))"
proof (intro conjI impI)
  assume h: "poll a pre = (Waiting, a1, sent) \<and> response ''error'' = Some code \<and>
          lookup_handler (handlers a1) code = Some h \<and> \<not> continue_on_error h \<and>
          action h (attrs a1) = (None, c)"
  then have "poll_turn a1 (Inr response) = Exit (Returned JNull) (a1\<lparr>attrs := c\<rparr>)"
    by (simp add: poll_turn_def)
  then show "poll a (pre @ Inr response # rest) =
            (Returned JNull, a1\<lparr>attrs := c\<rparr>,
             sent @ [prepare_request_uri (dc (attrs a)) (token_url (attrs a))
                       [(''device_code'', device_code ai)]])"
    using h assms by (simp add: poll_Waiting)
next
  assume "poll a replies = (Returned v, a', sent')"
  then have "poll_loop (prepare_request_uri (dc (attrs a)) (token_url (attrs a))
                  [(''device_code'', device_code ai)]) a replies [] = (Returned v, a', sent')"
    using assms by (simp add: poll_def)
  from poll_loop_Returned [OF this] obtain pre response rest a1 s1 where
    "replies = pre @ Inr response # rest"
    "poll_loop (prepare_request_uri (dc (attrs a)) (token_url (attrs a))
                  [(''device_code'', device_code ai)]) a pre [] = (Waiting, a1, s1)"
    "sent' = s1 @ [prepare_request_uri (dc (attrs a)) (token_url (attrs a))
                  [(''device_code'', device_code ai)]]"
    "(response ''error'' = None \<and> response ''access_token'' = Some v \<and> a' = a1) \<or>
      (\<exists>code h c. response ''error'' = Some code \<and>
         lookup_handler (handlers a1) code = Some h \<and> \<not> continue_on_error h \<and>
         action h (attrs a1) = (None, c) \<and> v = JNull \<and> a' = a1\<lparr>attrs := c\<rparr>)"
    by blast
  moreover from this have "poll a pre = (Waiting, a1, butlast sent')"
    using assms by (simp add: poll_def)
  ultimately show "\<exists>pre response rest a1.
             replies = pre @ Inr response # rest \<and> poll a pre = (Waiting, a1, butlast sent') \<and>
             ((response ''error'' = None \<and> response ''access_token'' = Some v \<and> a' = a1) \<or>
              (\<exists>code h c. response ''error'' = Some code \<and>
                 lookup_handler (handlers a1) code = Some h \<and> \<not> continue_on_error h \<and>
                 action h (attrs a1) = (None, c) \<and> v = JNull \<and> a' = a1\<lparr>attrs := c\<rparr>))"
    by blast
qed

theorem poll_silent_stop_witness:
  "auth_info (attrs example_cancellable) = Some example_info \<and>
   poll example_cancellable [error_response ''authorization_pending'']
     = (Waiting, example_waited, [example_token_request]) \<and>
   lookup_handler (handlers example_waited) (JStr ''access_denied'') = Some cancel_handler \<and>
   \<not> continue_on_error cancel_handler \<and>
   action cancel_handler (attrs example_waited) = (None, attrs example_waited) \<and>
   poll example_cancellable
       [error_response ''authorization_pending'', error_response ''access_denied'',
        token_response ''tok'']
     = (Returned JNull, example_waited, [example_token_request, example_token_request]) \<and>
   (\<exists>pre response rest a1.
      [error_response ''authorization_pending'', error_response ''access_denied'',
       token_response ''tok''] = pre @ Inr response # rest \<and>
      poll example_cancellable pre = (Waiting, a1, [example_token_request]) \<and>
      ((response ''error'' = None \<and> response ''access_token'' = Some JNull \<and>
        example_waited = a1) \<or>
       (\<exists>code h c. response ''error'' = Some code \<and>
          lookup_handler (handlers a1) code = Some h \<and> \<not> continue_on_error h \<and>
          action h (attrs a1) = (None, c) \<and> example_waited = a1\<lparr>attrs := c\<rparr>)))"
proof -
  have i: "auth_info (attrs example_cancellable) = Some example_info"
    by (simp add: cancellable_attrs pinged_attrs)
  have l: "lookup_handler (handlers example_waited) (JStr ''access_denied'') = Some cancel_handler"
    by (simp add: waited_handlers lookup_cancel)
  have e: "[''error'' \<mapsto> JStr ''access_denied''] ''error'' = Some (JStr ''access_denied'')"
    by simp
  note t = poll_silent_stop [OF i, where pre = "[error_response ''authorization_pending'']"
      and ?a1.0 = example_waited and sent = "[example_token_request]"
      and response = "[''error'' \<mapsto> JStr ''access_denied'']"
      and code = "JStr ''access_denied''" and h = cancel_handler
      and c = "attrs example_waited" and rest = "[token_response ''tok'']"
      and replies = "[error_response ''authorization_pending'', error_response ''access_denied'',
        token_response ''tok'']"
      and v = JNull and a' = example_waited
      and sent' = "[example_token_request, example_token_request]"]
  have r: "prepare_request_uri (dc (attrs example_cancellable))
      (token_url (attrs example_cancellable)) [(''device_code'', device_code example_info)]
      = example_token_request"
    by (simp add: cancellable_attrs pinged_request)
  have p: "poll example_cancellable
       [error_response ''authorization_pending'', error_response ''access_denied'',
        token_response ''tok'']
     = (Returned JNull, example_waited, [example_token_request, example_token_request])"
    using t [THEN conjunct1] poll_cancellable_pending l e
    by (simp add: cancel_handler_fields r error_response_def)
  have "\<exists>pre response rest a1.
      [error_response ''authorization_pending'', error_response ''access_denied'',
       token_response ''tok''] = pre @ Inr response # rest \<and>
      poll example_cancellable pre = (Waiting, a1, [example_token_request]) \<and>
      ((response ''error'' = None \<and> response ''access_token'' = Some JNull \<and>
        example_waited = a1) \<or>
       (\<exists>code h c. response ''error'' = Some code \<and>
          lookup_handler (handlers a1) code = Some h \<and> \<not> continue_on_error h \<and>
          action h (attrs a1) = (None, c) \<and> example_waited = a1\<lparr>attrs := c\<rparr>))"
    using t [THEN conjunct2] p by simp
  then show ?thesis
    using i poll_cancellable_pending l p by (simp add: cancel_handler_fields)
qed

text \<open>
  An error code with no registered handler.  Let \<open>poll\<close> (or \<open>async_poll\<close>) have gone
  through the replies \<open>pre\<close> and be about to send the next request.  If the next response
  carries an error code with no registered handler, the call ends with this request,
  whatever replies would follow, by raising \<open>ServerError\<close>: built from the error code
  itself in \<open>poll\<close>, and from the f-string around the error code in \<open>async_poll\<close>.  The
  Authenticator is left as it was.
\<close>

lemma unhandled_error_raises:
  assumes "auth_info (attrs a) = Some ai"
    and "response ''error'' = Some code"
    and "lookup_handler (handlers a1) code = None"
  shows "(poll a pre = (Waiting, a1, sent) \<longrightarrow>
          poll a (pre @ Inr response # rest) =
            (Raised (ServerError (Raw code)), a1,
             sent @ [prepare_request_uri (dc (attrs a)) (token_url (attrs a))
                       [(''device_code'', device_code ai)]])) \<and>
         (async_poll a pre = (Waiting, a1, sent) \<longrightarrow>
          async_poll a (pre @ Inr response # rest) =
            (Raised (ServerError
               (Formatted ''The server returned the following error: '' code)), a1,
             sent @ [prepare_request_uri (dc (attrs a)) (token_url (attrs a))
                       [(''device_code'', device_code ai)]]))"
  using assms
  by (simp add: poll_Waiting async_poll_Waiting poll_turn_def async_poll_turn_def)

text \<open>
  C4.  The claim is that an error code with no registered handler ends every poll call at
  once with an error that carries the raw error code.  Evaluated on a pinged Authenticator
  with the default handlers, on the replies \<open>slow_down\<close>, \<open>expired_token\<close> and a token:
  both calls end with the second request and raise \<open>ServerError\<close>, but only \<open>poll\<close>
  builds it from the error code; \<open>async_poll\<close> builds it from the message
  \<open>The server returned the following error: expired_token\<close>, which is not the code.
\<close>

theorem async_poll_unhandled_error_message:
  "lookup_handler (handlers example_pinged) (JStr ''expired_token'') = None \<and>
   poll example_pinged
       [error_response ''slow_down'', error_response ''expired_token'', token_response ''tok'']
     = (Raised (ServerError (Raw (JStr ''expired_token''))), example_pinged,
        [example_token_request, example_token_request]) \<and>
   async_poll example_pinged
       [error_response ''slow_down'', error_response ''expired_token'', token_response ''tok'']
     = (Raised (ServerError
          (Formatted ''The server returned the following error: '' (JStr ''expired_token''))),
        example_pinged, [example_token_request, example_token_request]) \<and>
   Formatted ''The server returned the following error: '' (JStr ''expired_token'')
     \<noteq> Raw (JStr ''expired_token'')"
proof -
  have i: "auth_info (attrs example_pinged) = Some example_info"
    by (simp add: pinged_attrs)
  have e: "[''error'' \<mapsto> JStr ''expired_token''] ''error'' = Some (JStr ''expired_token'')"
    by simp
  have l: "lookup_handler (handlers example_pinged) (JStr ''expired_token'') = None"
    by (simp add: pinged_handlers lookup_unregistered)
  have w: "poll example_pinged [error_response ''slow_down''] =
     (Waiting, example_pinged, [example_token_request])"
    by (simp add: poll_pinged poll_turn_def pinged_handlers lookup_slow_down
        error_response_def expression_action_def)
  have w': "async_poll example_pinged [error_response ''slow_down''] =
     (Waiting, example_pinged, [example_token_request])"
    by (simp add: async_poll_pinged async_poll_turn_def pinged_handlers lookup_slow_down
        error_response_def expression_action_def)
  note t = unhandled_error_raises [where a = example_pinged and ai = example_info
      and response = "[''error'' \<mapsto> JStr ''expired_token'']"
      and code = "JStr ''expired_token''" and ?a1.0 = example_pinged
      and pre = "[error_response ''slow_down'']"
      and sent = "[example_token_request]" and rest = "[token_response ''tok'']", OF i e l]
  show ?thesis
    using l w w' t [THEN conjunct1] t [THEN conjunct2]
    by (simp add: error_response_def pinged_request)
qed

text \<open>
  C8.  While \<open>auth_info\<close> is \<open>None\<close>, \<open>poll\<close> (and \<open>async_poll\<close>) raises at once, on
  reading \<open>device_code\<close>: no request is sent, whatever the server would have replied,
  nothing is returned and the Authenticator is left as it was.
\<close>

theorem poll_before_ping_fails:
  assumes "auth_info (attrs a) = None"
  shows "poll a replies = (Raised (AttributeError ''device_code''), a, []) \<and>
         async_poll a replies = (Raised (AttributeError ''device_code''), a, [])"
  using assms by (simp add: poll_def async_poll_def)

theorem poll_before_ping_fails_witness:
  "auth_info (attrs example_authenticator) = None \<and>
   poll example_authenticator [token_response ''tok'']
     = (Raised (AttributeError ''device_code''), example_authenticator, []) \<and>
   async_poll example_authenticator [token_response ''tok'']
     = (Raised (AttributeError ''device_code''), example_authenticator, [])"
  using poll_before_ping_fails [OF authenticator_auth_info, of "[token_response ''tok'']"]
    authenticator_auth_info
  by simp

section \<open>The request of a poll call\<close>











section \<open>What ping stores\<close>


lemma build_auth_info_missing:
  assumes "r ''device_code'' = None \<or> r ''user_code'' = None \<or>
           r ''expires_in'' = None \<or> r ''interval'' = None"
  shows "\<exists>k. build_auth_info r = Inl (KeyError k) \<and> r k = None \<and>
           k \<in> {''device_code'', ''user_code'', ''expires_in'', ''interval''}"
proof (cases "r ''device_code''")
  case None
  then show ?thesis by (simp add: build_auth_info_def)
next
  case d: (Some d)
  show ?thesis
  proof (cases "r ''user_code''")
    case None
    then show ?thesis using d by (simp add: build_auth_info_def)
  next
    case u: (Some u)
    show ?thesis
    proof (cases "r ''expires_in''")
      case None
      then show ?thesis using d u by (simp add: build_auth_info_def)
    next
      case e: (Some e)
      with assms d u have "r ''interval'' = None" by simp
      then show ?thesis using d u e by (simp add: build_auth_info_def)
    qed
  qed
qed

lemma build_auth_info_Inr:
  "build_auth_info r = Inr info \<Longrightarrow>
   r ''device_code'' = Some (device_code info) \<and> r ''user_code'' = Some (user_code info) \<and>
   r ''expires_in'' = Some (expires_in info) \<and> r ''interval'' = Some (interval info)"
  by (auto simp: build_auth_info_def split: option.splits)




text \<open>
  C6.  The claim is that \<open>ping\<close> fails when no verification URL field is present, as it
  does for the other fields.  This response has the other four fields and neither
  \<open>verification_uri\<close> nor \<open>verification_url\<close>: \<open>ping\<close> raises nothing, and returns and
  stores an AuthInfo whose \<open>verification_uri\<close> is \<open>None\<close>, where the class documents a
  string, the URL the user must visit.
\<close>

theorem ping_stores_auth_info_without_verification_uri:
  "(example_device_response(''verification_uri'' := None)) ''verification_uri'' = None \<and>
   (example_device_response(''verification_uri'' := None)) ''verification_url'' = None \<and>
   fst (ping example_authenticator (Inr (example_device_response(''verification_uri'' := None))))
     = Inr (example_info\<lparr>verification_uri := JNull\<rparr>) \<and>
   auth_info (attrs (fst (snd
     (ping example_authenticator (Inr (example_device_response(''verification_uri'' := None)))))))
     = Some (example_info\<lparr>verification_uri := JNull\<rparr>)"
  by (simp add: ping_def build_auth_info_def example_device_response_def example_info_def
      py_or_def py_get_def)

text \<open>
  The four fields read by subscript.  When \<open>device_code\<close>, \<open>user_code\<close>, \<open>expires_in\<close>
  or \<open>interval\<close> is absent from the response, \<open>ping\<close> raises \<open>KeyError\<close> for a field that
  is absent and the Authenticator, with the \<open>auth_info\<close> it held, is left as it was.  And
  whenever \<open>ping\<close> returns an AuthInfo, it is the one stored and these four fields of it
  are the values in the response.
\<close>

lemma ping_missing_field:
  "(r ''device_code'' = None \<or> r ''user_code'' = None \<or>
    r ''expires_in'' = None \<or> r ''interval'' = None \<longrightarrow>
    (\<exists>k. ping a (Inr r) =
            (Inl (KeyError k), a, [prepare_request_uri (dc (attrs a)) (auth_url (attrs a)) []]) \<and>
         r k = None \<and> k \<in> {''device_code'', ''user_code'', ''expires_in'', ''interval''})) \<and>
   (ping a (Inr r) = (Inr info, a', sent) \<longrightarrow>
      auth_info (attrs a') = Some info \<and>
      r ''device_code'' = Some (device_code info) \<and> r ''user_code'' = Some (user_code info) \<and>
      r ''expires_in'' = Some (expires_in info) \<and> r ''interval'' = Some (interval info))"
proof (rule conjI)
  show "r ''device_code'' = None \<or> r ''user_code'' = None \<or>
    r ''expires_in'' = None \<or> r ''interval'' = None \<longrightarrow>
    (\<exists>k. ping a (Inr r) =
            (Inl (KeyError k), a, [prepare_request_uri (dc (attrs a)) (auth_url (attrs a)) []]) \<and>
         r k = None \<and> k \<in> {''device_code'', ''user_code'', ''expires_in'', ''interval''})"
  proof (rule impI)
    assume "r ''device_code'' = None \<or> r ''user_code'' = None \<or>
      r ''expires_in'' = None \<or> r ''interval'' = None"
    from build_auth_info_missing [OF this] obtain k where
      "build_auth_info r = Inl (KeyError k)" "r k = None"
      "k \<in> {''device_code'', ''user_code'', ''expires_in'', ''interval''}"
      by blast
    then have "ping a (Inr r) =
            (Inl (KeyError k), a, [prepare_request_uri (dc (attrs a)) (auth_url (attrs a)) []]) \<and>
         r k = None \<and> k \<in> {''device_code'', ''user_code'', ''expires_in'', ''interval''}"
      by (simp add: ping_def)
    then show "\<exists>k. ping a (Inr r) =
            (Inl (KeyError k), a, [prepare_request_uri (dc (attrs a)) (auth_url (attrs a)) []]) \<and>
         r k = None \<and> k \<in> {''device_code'', ''user_code'', ''expires_in'', ''interval''}"
      by blast
  qed
next
  show "ping a (Inr r) = (Inr info, a', sent) \<longrightarrow>
      auth_info (attrs a') = Some info \<and>
      r ''device_code'' = Some (device_code info) \<and> r ''user_code'' = Some (user_code info) \<and>
      r ''expires_in'' = Some (expires_in info) \<and> r ''interval'' = Some (interval info)"
  proof (rule impI)
    assume p: "ping a (Inr r) = (Inr info, a', sent)"
    then have b: "build_auth_info r = Inr info"
      and "a' = a\<lparr>attrs := (attrs a)\<lparr>auth_info := Some info\<rparr>\<rparr>"
      by (auto simp: ping_def Let_def split: sum.splits)
    then show "auth_info (attrs a') = Some info \<and>
        r ''device_code'' = Some (device_code info) \<and> r ''user_code'' = Some (user_code info) \<and>
        r ''expires_in'' = Some (expires_in info) \<and> r ''interval'' = Some (interval info)"
      using build_auth_info_Inr [OF b] by simp
  qed
qed

lemma authenticator_attrs:
  "attrs example_authenticator =
     \<lparr>client_id = ''client'', auth_url = ''https://auth.example/device'',
      token_url = ''https://auth.example/token'', scopes = None, poll_interval = 5,
      auth_info = None,
      dc = \<lparr>dc_client_id = ''client'', dc_scope = None, dc_extras = []\<rparr>, slept = []\<rparr>"
  by (simp add: example_authenticator_def init_def attach_handler_def get_default_handlers_def)

lemma ping_example:
  "ping example_authenticator (Inr example_device_response)
     = (Inr example_info, example_pinged, [example_device_request])"
  by (simp add: example_pinged_def)
     (simp add: ping_def build_example_info authenticator_attrs prepare_request_uri_def
       example_device_request_def)

lemma ping_missing_field_example:
  "(example_device_response(''interval'' := None)) ''interval'' = None \<and>
   (\<exists>k. ping example_authenticator (Inr (example_device_response(''interval'' := None))) =
          (Inl (KeyError k), example_authenticator,
           [prepare_request_uri (dc (attrs example_authenticator))
              (auth_url (attrs example_authenticator)) []]) \<and>
        (example_device_response(''interval'' := None)) k = None \<and>
        k \<in> {''device_code'', ''user_code'', ''expires_in'', ''interval''}) \<and>
   ping example_authenticator (Inr example_device_response)
     = (Inr example_info, example_pinged, [example_device_request]) \<and>
   auth_info (attrs example_pinged) = Some example_info \<and>
   example_device_response ''device_code'' = Some (device_code example_info) \<and>
   example_device_response ''user_code'' = Some (user_code example_info) \<and>
   example_device_response ''expires_in'' = Some (expires_in example_info) \<and>
   example_device_response ''interval'' = Some (interval example_info)"
proof -
  have n: "(example_device_response(''interval'' := None)) ''interval'' = None"
    by simp
  note t1 = ping_missing_field [where r = "example_device_response(''interval'' := None)"
      and a = example_authenticator, THEN conjunct1]
  note t2 = ping_missing_field [where r = example_device_response
      and a = example_authenticator and info = example_info and a' = example_pinged
      and sent = "[example_device_request]", THEN conjunct2]
  show ?thesis
    using n t1 t2 ping_example by simp
qed

section \<open>authenticate after a silent stop\<close>

lemma ping_Inr:
  "ping a rep = (Inr info, a1, sent1) \<Longrightarrow>
   auth_info (attrs a1) = Some info \<and> handlers a1 = handlers a"
  by (auto simp: ping_def Let_def split: sum.splits)

lemma authenticate_Returned:
  "ping a rep = (Inr info, a1, sent1) \<Longrightarrow> poll a1 replies = (Returned v, a2, sent2) \<Longrightarrow>
   authenticate a args rep replies =
     (Returned v, a2, sent1 @ sent2,
      message_events args info @ spinner_enter (chosen_spinner args) @
      success_events args (chosen_spinner args) @ fst (spinner_exit (chosen_spinner args)))"
  by (simp add: authenticate_def Let_def)

lemma ping_with_cancel:
  "ping example_with_cancel (Inr example_device_response)
     = (Inr example_info, example_cancellable, [example_device_request])"
proof -
  have "attrs example_with_cancel = attrs example_authenticator"
    by (simp add: example_with_cancel_def attach_handler_def)
  moreover have "handlers example_with_cancel = get_default_handlers @ [cancel_handler]"
    by (simp add: example_with_cancel_def attach_handler_def authenticator_handlers
        get_default_handlers_def cancel_handler_def)
  moreover have "example_with_cancel\<lparr>attrs := attrs example_pinged\<rparr> = example_cancellable"
    using calculation(2) by (simp add: cancellable_attrs cancellable_handlers)
  ultimately show ?thesis
    by (simp add: ping_def build_example_info authenticator_attrs prepare_request_uri_def
        example_device_request_def pinged_attrs)
qed

lemma default_display:
  "message_events default_arguments example_info @
   spinner_enter (chosen_spinner default_arguments) @
   success_events default_arguments (chosen_spinner default_arguments) @
   fst (spinner_exit (chosen_spinner default_arguments)) = example_display"
  by (simp add: message_events_def spinner_enter_def chosen_spinner_def success_events_def
      spinner_exit_def spinner_succeed_def default_arguments_def example_info_def
      example_display_def str_truthy_def)

text \<open>
  C10.  Let \<open>ping\<close> succeed and let \<open>poll\<close> reach, after the replies \<open>pre\<close>, a response
  whose error code has a registered handler with \<open>continue_on_error\<close> false, the action of
  which returns.  Then \<open>authenticate\<close> raises nothing and returns \<open>None\<close>, having made the
  display calls of its success path.  Had a token response \<open>tr\<close> come in place of that
  response, \<open>authenticate\<close> would have sent the same requests and made the same display
  calls, and returned the token: the two runs differ in the value returned only (and in
  what the action did to the Authenticator).
\<close>

theorem authenticate_silent_stop:
  assumes "ping a ping_reply = (Inr info, a1, sent1)"
    and "poll a1 pre = (Waiting, a2, sent2)"
    and "response ''error'' = Some code"
    and "lookup_handler (handlers a2) code = Some h"
    and "\<not> continue_on_error h"
    and "action h (attrs a2) = (None, c)"
    and "tr ''error'' = None"
    and "tr ''access_token'' = Some t"
    and "uri = prepare_request_uri (dc (attrs a1)) (token_url (attrs a1))
                 [(''device_code'', device_code info)]"
    and "shown = message_events args info @ spinner_enter (chosen_spinner args) @
                 success_events args (chosen_spinner args) @
                 fst (spinner_exit (chosen_spinner args))"
  shows "authenticate a args ping_reply (pre @ Inr response # rest) =
           (Returned JNull, a2\<lparr>attrs := c\<rparr>, sent1 @ sent2 @ [uri], shown) \<and>
         authenticate a args ping_reply (pre @ Inr tr # rest) =
           (Returned t, a2, sent1 @ sent2 @ [uri], shown)"
proof -
  from assms(1) have i: "auth_info (attrs a1) = Some info"
    by (simp add: ping_Inr)
  have "poll_turn a2 (Inr response) = Exit (Returned JNull) (a2\<lparr>attrs := c\<rparr>)"
    using assms(3-6) by (simp add: poll_turn_def)
  then have 1: "poll a1 (pre @ Inr response # rest) =
      (Returned JNull, a2\<lparr>attrs := c\<rparr>, sent2 @ [uri])"
    using assms(2,9) i by (simp add: poll_Waiting)
  have "poll_turn a2 (Inr tr) = Exit (Returned t) a2"
    using assms(7,8) by (simp add: poll_turn_def)
  then have 2: "poll a1 (pre @ Inr tr # rest) = (Returned t, a2, sent2 @ [uri])"
    using assms(2,9) i by (simp add: poll_Waiting)
  show ?thesis
    using authenticate_Returned [OF assms(1) 1] authenticate_Returned [OF assms(1) 2] assms(10)
    by simp
qed

theorem authenticate_silent_stop_witness:
  "ping example_with_cancel (Inr example_device_response)
     = (Inr example_info, example_cancellable, [example_device_request]) \<and>
   poll example_cancellable [error_response ''authorization_pending'']
     = (Waiting, example_waited, [example_token_request]) \<and>
   lookup_handler (handlers example_waited) (JStr ''access_denied'') = Some cancel_handler \<and>
   \<not> continue_on_error cancel_handler \<and>
   action cancel_handler (attrs example_waited) = (None, attrs example_waited) \<and>
   authenticate example_with_cancel default_arguments (Inr example_device_response)
       [error_response ''authorization_pending'', error_response ''access_denied'',
        token_response ''tok'']
     = (Returned JNull, example_waited,
        [example_device_request, example_token_request, example_token_request],
        example_display) \<and>
   authenticate example_with_cancel default_arguments (Inr example_device_response)
       [error_response ''authorization_pending'', token_response ''tok'',
        token_response ''tok'']
     = (Returned (JStr ''tok''), example_waited,
        [example_device_request, example_token_request, example_token_request],
        example_display)"
proof -
  have l: "lookup_handler (handlers example_waited) (JStr ''access_denied'') = Some cancel_handler"
    by (simp add: waited_handlers lookup_cancel)
  have e: "[''error'' \<mapsto> JStr ''access_denied''] ''error'' = Some (JStr ''access_denied'')"
    by simp
  have k: "[''access_token'' \<mapsto> JStr ''tok'', ''token_type'' \<mapsto> JStr ''bearer''] ''error'' = None"
    "[''access_token'' \<mapsto> JStr ''tok'', ''token_type'' \<mapsto> JStr ''bearer''] ''access_token''
       = Some (JStr ''tok'')"
    by simp_all
  have r: "example_token_request =
      prepare_request_uri (dc (attrs example_cancellable))
        (token_url (attrs example_cancellable)) [(''device_code'', device_code example_info)]"
    by (simp add: cancellable_attrs pinged_request)
  note t = authenticate_silent_stop [where a = example_with_cancel
      and ping_reply = "Inr example_device_response" and info = example_info
      and ?a1.0 = example_cancellable and ?sent1.0 = "[example_device_request]"
      and pre = "[error_response ''authorization_pending'']"
      and ?a2.0 = example_waited and ?sent2.0 = "[example_token_request]"
      and response = "[''error'' \<mapsto> JStr ''access_denied'']"
      and code = "JStr ''access_denied''" and h = cancel_handler
      and c = "attrs example_waited"
      and tr = "[''access_token'' \<mapsto> JStr ''tok'', ''token_type'' \<mapsto> JStr ''bearer'']"
      and t = "JStr ''tok''" and uri = example_token_request
      and args = default_arguments and shown = example_display
      and rest = "[token_response ''tok'']",
      OF ping_with_cancel poll_cancellable_pending e l _ _ k r default_display [symmetric]]
  show ?thesis
    using ping_with_cancel poll_cancellable_pending l t
    by (simp add: cancel_handler_fields error_response_def token_response_def)
qed

end
